theory Spec2Isabelle
  imports Complex_Main "HOL-Library.AList"
begin

section \<open>JavaScript values\<close>

text \<open>
  A JavaScript string is a sequence of UTF-16 code units, here natural numbers. A literal
  of the source is written \<open>js ''...''\<close>. Numbers that arrive in JSON payloads are finite,
  so they are rationals; a \<open>Date\<close> is its number of milliseconds. Calls to \<open>console.log\<close>
  and \<open>console.error\<close> change no state of the application and are left out.
\<close>

type_synonym jsstring = "nat list"

definition js :: "string \<Rightarrow> jsstring" where
  "js s = map of_char s"

text \<open>
  The code units that \<open>String.prototype.trim\<close> strips: the WhiteSpace and LineTerminator
  productions of ECMAScript (TAB, LF, VT, FF, CR, SP, NBSP, U+1680, U+2000 to U+200A,
  U+2028, U+2029, U+202F, U+205F, U+3000, U+FEFF).
\<close>

definition isWhiteSpace :: "nat \<Rightarrow> bool" where
  "isWhiteSpace c =
     (c \<in> set [9, 10, 11, 12, 13, 32, 160, 5760, 8232, 8233, 8239, 8287, 12288, 65279]
      \<or> (8192 \<le> c \<and> c \<le> 8202))"

definition trim :: "jsstring \<Rightarrow> jsstring" where
  "trim s = rev (dropWhile isWhiteSpace (rev (dropWhile isWhiteSpace s)))"

text \<open>\<open>Number.prototype.toString\<close> on a non-negative integer such as \<open>Date.now()\<close>.\<close>

fun toString :: "nat \<Rightarrow> jsstring" where
  "toString n = (if n < 10 then [48 + n] else toString (n div 10) @ [48 + n mod 10])"

declare toString.simps [simp del]

text \<open>
  \<open>a || b\<close> yields \<open>b\<close> when \<open>a\<close> is falsy. A field that is missing reads as
  \<open>undefined\<close>; the empty string, the number zero and \<open>false\<close> are falsy too, an array
  never is.
\<close>

definition or_string :: "jsstring option \<Rightarrow> jsstring \<Rightarrow> jsstring" where
  "or_string a b = (case a of None \<Rightarrow> b | Some s \<Rightarrow> if s = [] then b else s)"

definition or_number :: "rat option \<Rightarrow> rat \<Rightarrow> rat" where
  "or_number a b = (case a of None \<Rightarrow> b | Some x \<Rightarrow> if x = 0 then b else x)"

definition or_boolean :: "bool option \<Rightarrow> bool \<Rightarrow> bool" where
  "or_boolean a b = (case a of None \<Rightarrow> b | Some x \<Rightarrow> if x then True else b)"

definition or_array :: "'a list option \<Rightarrow> 'a list \<Rightarrow> 'a list" where
  "or_array a b = (case a of None \<Rightarrow> b | Some xs \<Rightarrow> xs)"

datatype js_error = Error jsstring | TypeError

text \<open>
  Every message reads the clock twice: \<open>Date.now()\<close> for its id and \<open>new Date()\<close> for its
  timestamp. An instant is that pair of readings.
\<close>

type_synonym instant = "nat \<times> nat"

section \<open>chatSlice: the conversation store\<close>

datatype MessageType = User | Assistant | System

record Message =
  msg_id :: jsstring
  msg_type :: MessageType
  content :: jsstring
  timestamp :: nat
  confidence :: "rat option"
  enginesUsed :: "jsstring list option"
  processingTime :: "rat option"

record ChatState =
  messages :: "Message list"
  isProcessing :: bool
  activeEngines :: "jsstring list"
  currentInput :: jsstring

text \<open>The module is loaded at time \<open>t0\<close>, which stamps the welcome message.\<close>

definition initialState :: "nat \<Rightarrow> ChatState" where
  "initialState t0 =
     \<lparr>messages =
        [\<lparr>msg_id = js ''1'', msg_type = System,
          content = js (''Welcome to Supreme Jarvis! I'' @ [CHR 0x27] @ ''m ready to assist you with my god-like capabilities. How can I help you today?''),
          timestamp = t0, confidence = None, enginesUsed = None, processingTime = None\<rparr>],
      isProcessing = False,
      activeEngines = [],
      currentInput = []\<rparr>"

definition addMessage :: "Message \<Rightarrow> ChatState \<Rightarrow> ChatState" where
  "addMessage payload state = state\<lparr>messages := messages state @ [payload]\<rparr>"

definition setProcessing :: "bool \<Rightarrow> ChatState \<Rightarrow> ChatState" where
  "setProcessing payload state = state\<lparr>isProcessing := payload\<rparr>"

definition setActiveEngines :: "jsstring list \<Rightarrow> ChatState \<Rightarrow> ChatState" where
  "setActiveEngines payload state = state\<lparr>activeEngines := payload\<rparr>"

definition setCurrentInput :: "jsstring \<Rightarrow> ChatState \<Rightarrow> ChatState" where
  "setCurrentInput payload state = state\<lparr>currentInput := payload\<rparr>"

definition clearMessages :: "nat \<Rightarrow> ChatState \<Rightarrow> ChatState" where
  "clearMessages t0 state = state\<lparr>messages := [messages (initialState t0) ! 0]\<rparr>"

section \<open>settingsSlice: the profile and the preferences\<close>

record UserProfile =
  userId :: jsstring
  name :: jsstring
  role :: jsstring
  experienceLevel :: jsstring

record Preferences =
  complexity :: jsstring
  style :: jsstring
  quantumPowers :: bool
  codingFocus :: jsstring

section \<open>The socket object\<close>

text \<open>
  The socket is an object of the socket.io client library. The model keeps what the
  front end reads and does: the \<open>connected\<close> flag, whether \<open>disconnect()\<close> has been called,
  the listeners registered with \<open>on\<close>, and the arguments of every \<open>emit\<close> call in order.
  \<open>emit\<close> throws on the event names the library reserves and otherwise records the call;
  it does not look at \<open>connected\<close>. A payload is what the front end passes to \<open>emit\<close>:
  nothing, the chat message with the profile's id and name, the preferences and the
  role, or the control settings.
\<close>

datatype setting = Flag bool | Level rat

datatype payload =
    NoPayload
  | ChatMessage jsstring jsstring jsstring Preferences jsstring
  | ControlSettings "(string \<times> setting) list"

datatype listener =
    connect_listener
  | disconnect_listener
  | connect_error_listener
  | handleSystemStatus_listener
  | handleEngineActivity_listener

record Socket =
  connected :: bool
  closed :: bool
  listeners :: "(string \<times> listener) list"
  sent :: "(string \<times> payload) list"

definition reservedEvents :: "string list" where
  "reservedEvents =
     [''connect'', ''connect_error'', ''disconnect'', ''disconnecting'', ''newListener'',
      ''removeListener'']"

definition on :: "string \<Rightarrow> listener \<Rightarrow> Socket \<Rightarrow> Socket" where
  "on ev h k = k\<lparr>listeners := listeners k @ [(ev, h)]\<rparr>"

definition off :: "string \<Rightarrow> listener \<Rightarrow> Socket \<Rightarrow> Socket" where
  "off ev h k = k\<lparr>listeners := remove1 (ev, h) (listeners k)\<rparr>"

definition emit :: "string \<Rightarrow> payload \<Rightarrow> Socket \<Rightarrow> js_error + Socket" where
  "emit ev p k =
     (if ev \<in> set reservedEvents then Inl (Error (js ([CHR 0x22] @ ev @ [CHR 0x22] @ '' is a reserved event name'')))
      else Inr (k\<lparr>sent := sent k @ [(ev, p)]\<rparr>))"

section \<open>ChatInterface: the handlers of the conversation\<close>

text \<open>Payloads of the inbound events. A field the backend left out is \<open>None\<close>.\<close>

record ChatResponse =
  response :: "jsstring option"
  response_confidence :: "rat option"
  engines_used :: "jsstring list option"
  processing_time :: "rat option"

record ProcessingStatus =
  engines_active :: "jsstring list option"

record ErrorPayload =
  message :: "jsstring option"

text \<open>
  The handlers take the event's argument as an option: \<open>None\<close> is an event that carries
  no object (\<open>undefined\<close> or \<open>null\<close>), on which reading a property throws a TypeError.
  A handler that ends by an uncaught exception yields \<open>Inl\<close> with the store as the
  dispatches before the throw left it.
\<close>

definition handleChatResponse :: "instant \<Rightarrow> ChatResponse option \<Rightarrow> ChatState \<Rightarrow> ChatState" where
  "handleChatResponse i r state =
     (case r of
        Some resp \<Rightarrow>
          let msg =
                \<lparr>msg_id = toString (fst i),
                 msg_type = Assistant,
                 content = or_string (response resp) (js ''No response received''),
                 timestamp = snd i,
                 confidence = Some (or_number (response_confidence resp) 0),
                 enginesUsed = Some (or_array (engines_used resp) []),
                 processingTime = Some (or_number (processing_time resp) 0)\<rparr>
          in setActiveEngines [] (setProcessing False (addMessage msg state))
      | None \<Rightarrow> setActiveEngines [] (setProcessing False state))"

definition handleProcessingStatus :: "ProcessingStatus option \<Rightarrow> ChatState \<Rightarrow> ChatState" where
  "handleProcessingStatus p state =
     (case p of
        Some status \<Rightarrow> setActiveEngines (or_array (engines_active status) []) state
      | None \<Rightarrow> state)"

definition handleError ::
  "instant \<Rightarrow> ErrorPayload option \<Rightarrow> ChatState \<Rightarrow> js_error \<times> ChatState + ChatState" where
  "handleError i e state =
     (let state1 = setProcessing False state;
          state2 = setActiveEngines [] state1
      in case e of
           None \<Rightarrow> Inl (TypeError, state2)
         | Some err \<Rightarrow>
             let errorMessage =
                   \<lparr>msg_id = toString (fst i),
                    msg_type = System,
                    content = js ''Error: '' @ or_string (message err) (js ''Unknown error occurred''),
                    timestamp = snd i,
                    confidence = None, enginesUsed = None, processingTime = None\<rparr>
             in Inr (addMessage errorMessage state2))"

text \<open>
  The effect of the component registers the three handlers on the socket, with no
  condition on the store: an inbound event always runs its handler.
\<close>

datatype inbound =
    on_chat_response "ChatResponse option"
  | on_processing_status "ProcessingStatus option"
  | on_error "ErrorPayload option"

fun socket_on :: "instant \<Rightarrow> inbound \<Rightarrow> ChatState \<Rightarrow> js_error \<times> ChatState + ChatState" where
  "socket_on i (on_chat_response r) state = Inr (handleChatResponse i r state)"
| "socket_on i (on_processing_status p) state = Inr (handleProcessingStatus p state)"
| "socket_on i (on_error e) state = handleError i e state"

text \<open>
  \<open>handleSendMessage\<close> reads the draft and the flag from the store, the profile and the
  preferences from the settings slice, and the socket from the socket slice. \<open>i1\<close> stamps
  the user's message, \<open>i2\<close> the system message of whichever failure arm runs.
\<close>

definition safeUserProfile :: "UserProfile option \<Rightarrow> UserProfile" where
  "safeUserProfile userProfile =
     (case userProfile of
        Some u \<Rightarrow> u
      | None \<Rightarrow> \<lparr>userId = js ''default_user'', name = js ''User'', role = js ''user'',
                 experienceLevel = js ''intermediate''\<rparr>)"

definition safePreferences :: "Preferences option \<Rightarrow> Preferences" where
  "safePreferences preferences =
     (case preferences of
        Some p \<Rightarrow> p
      | None \<Rightarrow> \<lparr>complexity = js ''detailed'', style = js ''technical'', quantumPowers = True,
                 codingFocus = js ''full_stack''\<rparr>)"

definition handleSendMessage ::
  "instant \<Rightarrow> instant \<Rightarrow> UserProfile option \<Rightarrow> Preferences option \<Rightarrow>
   Socket option \<times> ChatState \<Rightarrow> Socket option \<times> ChatState" where
  "handleSendMessage i1 i2 userProfile preferences w =
     (let socket = fst w; state = snd w in
      if trim (currentInput state) = [] \<or> isProcessing state then w
      else
        let userMessage =
              \<lparr>msg_id = toString (fst i1), msg_type = User, content = currentInput state,
               timestamp = snd i1, confidence = None, enginesUsed = None,
               processingTime = None\<rparr>;
            state1 = addMessage userMessage state;
            state2 = setProcessing True state1;
            messageToSend = currentInput state;
            state3 = setCurrentInput [] state2;
            notConnected =
              (let errorMessage =
                     \<lparr>msg_id = toString (fst i2), msg_type = System,
                      content = js ''Not connected to Supreme Jarvis backend. Please check the connection.'',
                      timestamp = snd i2, confidence = None, enginesUsed = None,
                      processingTime = None\<rparr>
               in (socket, addMessage errorMessage (setProcessing False state3)))
        in case socket of
             None \<Rightarrow> notConnected
           | Some k \<Rightarrow>
               if connected k then
                 (case emit ''chat_message''
                         (ChatMessage messageToSend
                            (userId (safeUserProfile userProfile))
                            (name (safeUserProfile userProfile))
                            (safePreferences preferences)
                            (role (safeUserProfile userProfile))) k of
                    Inr k' \<Rightarrow> (Some k', state3)
                  | Inl _ \<Rightarrow>
                      let errorMessage =
                            \<lparr>msg_id = toString (fst i2), msg_type = System,
                             content = js ''Error sending message. Please try again.'',
                             timestamp = snd i2, confidence = None, enginesUsed = None,
                             processingTime = None\<rparr>
                      in (socket, addMessage errorMessage (setProcessing False state3)))
               else notConnected)"

definition handleClearChat :: "nat \<Rightarrow> ChatState \<Rightarrow> ChatState" where
  "handleClearChat t0 state = clearMessages t0 state"

text \<open>
  Every operation on the conversation store: the five actions of the slice and the
  handlers of the component. \<open>run\<close> gives the socket and the store after one operation;
  after an uncaught exception the store is as the throw left it.
\<close>

datatype operation =
    AddMessage Message
  | SetProcessing bool
  | SetActiveEngines "jsstring list"
  | SetCurrentInput jsstring
  | ClearMessages
  | SendMessage instant instant "UserProfile option" "Preferences option"
  | Inbound instant inbound

fun run :: "nat \<Rightarrow> operation \<Rightarrow> Socket option \<times> ChatState \<Rightarrow> Socket option \<times> ChatState" where
  "run t0 (AddMessage m) w = (fst w, addMessage m (snd w))"
| "run t0 (SetProcessing b) w = (fst w, setProcessing b (snd w))"
| "run t0 (SetActiveEngines es) w = (fst w, setActiveEngines es (snd w))"
| "run t0 (SetCurrentInput x) w = (fst w, setCurrentInput x (snd w))"
| "run t0 ClearMessages w = (fst w, handleClearChat t0 (snd w))"
| "run t0 (SendMessage i1 i2 u p) w = handleSendMessage i1 i2 u p w"
| "run t0 (Inbound i ev) w =
     (case socket_on i ev (snd w) of Inr state \<Rightarrow> (fst w, state) | Inl (_, state) \<Rightarrow> (fst w, state))"

fun runs :: "nat \<Rightarrow> operation list \<Rightarrow> Socket option \<times> ChatState \<Rightarrow> Socket option \<times> ChatState" where
  "runs t0 [] w = w"
| "runs t0 (x # xs) w = runs t0 xs (run t0 x w)"

text \<open>
  What the user can do to the conversation: type into the draft and press send. \<open>emitted\<close>
  lists the \<open>emit\<close> calls made on the socket of the store, none when there is no socket.
\<close>

fun user_action :: "operation \<Rightarrow> bool" where
  "user_action (SendMessage i1 i2 u p) = True"
| "user_action (SetCurrentInput x) = True"
| "user_action _ = False"

definition emitted :: "Socket option \<Rightarrow> (string \<times> payload) list" where
  "emitted socket = (case socket of None \<Rightarrow> [] | Some k \<Rightarrow> sent k)"

definition user_messages :: "ChatState \<Rightarrow> Message list" where
  "user_messages state = filter (\<lambda>m. msg_type m = User) (messages state)"

section \<open>systemSlice and StatusPanel: the system status store\<close>

datatype EngineStatus = EngineActive | EngineIdle | EngineError | EngineDemo

record Engine =
  engine_name :: jsstring
  engine_status :: EngineStatus
  activity :: rat
  lastUsed :: "jsstring option"

record SystemState =
  engines :: "Engine list"
  overallHealth :: jsstring
  godlikeMode :: bool
  activeSessions :: rat
  uptime :: jsstring

definition systemInitialState :: SystemState where
  "systemInitialState =
     \<lparr>engines = [], overallHealth = js ''unknown'', godlikeMode = False, activeSessions = 0,
      uptime = js ''0m''\<rparr>"

definition setEngines :: "Engine list \<Rightarrow> SystemState \<Rightarrow> SystemState" where
  "setEngines payload state = state\<lparr>engines := payload\<rparr>"

definition setSystemStatus :: "jsstring \<Rightarrow> bool \<Rightarrow> rat \<Rightarrow> jsstring \<Rightarrow> SystemState \<Rightarrow> SystemState" where
  "setSystemStatus health godlike sessions up state =
     state\<lparr>overallHealth := health, godlikeMode := godlike, activeSessions := sessions,
           uptime := up\<rparr>"

record SystemStatusPayload =
  status_engines :: "Engine list option"
  overall_health :: "jsstring option"
  godlike_mode :: "bool option"
  active_sessions :: "rat option"
  status_uptime :: "jsstring option"

record EngineActivityPayload =
  activity_engines :: "Engine list option"

definition handleSystemStatus :: "SystemStatusPayload option \<Rightarrow> SystemState \<Rightarrow> SystemState" where
  "handleSystemStatus status state =
     (let state1 =
            (case status of
               Some st \<Rightarrow> (case status_engines st of Some es \<Rightarrow> setEngines es state | None \<Rightarrow> state)
             | None \<Rightarrow> state)
      in case status of
           Some st \<Rightarrow>
             setSystemStatus
               (or_string (overall_health st) (js ''unknown''))
               (or_boolean (godlike_mode st) False)
               (or_number (active_sessions st) 1)
               (or_string (status_uptime st) (js ''0m''))
               state1
         | None \<Rightarrow> state1)"

definition handleEngineActivity :: "EngineActivityPayload option \<Rightarrow> SystemState \<Rightarrow> SystemState" where
  "handleEngineActivity act state =
     (case act of
        Some a \<Rightarrow> (case activity_engines a of Some es \<Rightarrow> setEngines es state | None \<Rightarrow> state)
      | None \<Rightarrow> state)"

section \<open>The pollers of StatusPanel and MetricsPanel\<close>

text \<open>
  The effect of StatusPanel runs when the panel mounts with the socket of the store. The
  poller is the socket it closed over and the period of its running timer, \<open>None\<close> when
  no timer runs. The timer's callback is \<open>requestStatus\<close> itself.
\<close>

record StatusPoller =
  poller_socket :: "Socket option"
  interval :: "nat option"

definition requestStatus :: "Socket \<Rightarrow> Socket" where
  "requestStatus k =
     (case emit ''request_system_status'' NoPayload k of Inr k' \<Rightarrow> k' | Inl _ \<Rightarrow> k)"

definition StatusPanel_effect :: "Socket option \<Rightarrow> StatusPoller" where
  "StatusPanel_effect socket =
     (case socket of
        None \<Rightarrow> \<lparr>poller_socket = None, interval = None\<rparr>
      | Some k \<Rightarrow>
          \<lparr>poller_socket =
             Some (on ''engine_activity'' handleEngineActivity_listener
                    (on ''system_status'' handleSystemStatus_listener (requestStatus k))),
           interval = Some 5000\<rparr>)"

definition StatusPanel_tick :: "StatusPoller \<Rightarrow> StatusPoller" where
  "StatusPanel_tick p =
     (case interval p of
        None \<Rightarrow> p
      | Some _ \<Rightarrow>
          (case poller_socket p of
             Some k \<Rightarrow> p\<lparr>poller_socket := Some (requestStatus k)\<rparr>
           | None \<Rightarrow> p))"

definition StatusPanel_cleanup :: "StatusPoller \<Rightarrow> StatusPoller" where
  "StatusPanel_cleanup p =
     (case interval p of
        None \<Rightarrow> p
      | Some _ \<Rightarrow>
          \<lparr>poller_socket =
             map_option (\<lambda>k. off ''engine_activity'' handleEngineActivity_listener
                              (off ''system_status'' handleSystemStatus_listener k))
               (poller_socket p),
           interval = None\<rparr>)"

text \<open>
  MetricsPanel polls two HTTP endpoints with \<open>fetch\<close>; \<open>requests\<close> lists the URLs fetched
  so far. The socket is read only to decide whether the effect starts.
\<close>

record MetricsPoller =
  metrics_interval :: "nat option"
  requests :: "string list"

definition requestMetrics :: "MetricsPoller \<Rightarrow> MetricsPoller" where
  "requestMetrics p =
     p\<lparr>requests := requests p @ [''/api/system/metrics'', ''/api/system/performance'']\<rparr>"

definition MetricsPanel_effect :: "Socket option \<Rightarrow> MetricsPoller" where
  "MetricsPanel_effect socket =
     (case socket of
        None \<Rightarrow> \<lparr>metrics_interval = None, requests = []\<rparr>
      | Some _ \<Rightarrow> (requestMetrics \<lparr>metrics_interval = None, requests = []\<rparr>)
                    \<lparr>metrics_interval := Some 10000\<rparr>)"

definition MetricsPanel_tick :: "MetricsPoller \<Rightarrow> MetricsPoller" where
  "MetricsPanel_tick p = (case metrics_interval p of None \<Rightarrow> p | Some _ \<Rightarrow> requestMetrics p)"

definition MetricsPanel_cleanup :: "MetricsPoller \<Rightarrow> MetricsPoller" where
  "MetricsPanel_cleanup p = p\<lparr>metrics_interval := None\<rparr>"

section \<open>ControlCentre: the control settings\<close>

text \<open>
  The settings object maps a key to a boolean or a number; it is an association list in
  key order. The socket the component uses is the property \<open>socket\<close> of \<open>window\<close>.
\<close>

type_synonym controlSettings = "(string \<times> setting) list"

definition handleControlChange :: "string \<Rightarrow> bool \<Rightarrow> controlSettings \<Rightarrow> controlSettings" where
  "handleControlChange setting checked prev = AList.update setting (Flag checked) prev"

definition handleSliderChange :: "string \<Rightarrow> rat \<Rightarrow> controlSettings \<Rightarrow> controlSettings" where
  "handleSliderChange setting newValue prev = AList.update setting (Level newValue) prev"

definition saveSettings ::
  "Socket option \<times> controlSettings \<Rightarrow> js_error + Socket option \<times> controlSettings" where
  "saveSettings w =
     (case fst w of
        Some k \<Rightarrow>
          (case emit ''update_control_settings'' (ControlSettings (snd w)) k of
             Inr k' \<Rightarrow> Inr (Some k', snd w)
           | Inl e \<Rightarrow> Inl e)
      | None \<Rightarrow> Inr w)"

section \<open>socketSlice: the transport connection\<close>

text \<open>
  The store holds a reference to a socket object. The client is the slice together with
  every socket object \<open>io\<close> has created, the reference being an index into that list.
  \<open>io\<close> creates a new socket, which starts to connect; it is neither connected nor closed.
\<close>

record SocketState =
  socket :: "nat option"
  isConnected :: bool
  error :: "jsstring option"

record Client =
  socketState :: SocketState
  sockets :: "Socket list"

definition socketInitialState :: SocketState where
  "socketInitialState = \<lparr>socket = None, isConnected = False, error = None\<rparr>"

definition setSocket :: "nat \<Rightarrow> SocketState \<Rightarrow> SocketState" where
  "setSocket payload state = state\<lparr>socket := Some payload\<rparr>"

definition setConnected :: "bool \<Rightarrow> SocketState \<Rightarrow> SocketState" where
  "setConnected payload state = state\<lparr>isConnected := payload\<rparr>"

definition setError :: "jsstring option \<Rightarrow> SocketState \<Rightarrow> SocketState" where
  "setError payload state = state\<lparr>error := payload\<rparr>"

definition clearSocket :: "SocketState \<Rightarrow> SocketState" where
  "clearSocket state = state\<lparr>socket := None, isConnected := False, error := None\<rparr>"

definition io :: "Client \<Rightarrow> nat \<times> Client" where
  "io c =
     (length (sockets c),
      c\<lparr>sockets := sockets c @ [\<lparr>connected = False, closed = False, listeners = [], sent = []\<rparr>]\<rparr>)"

definition disconnect :: "Socket \<Rightarrow> Socket" where
  "disconnect k = k\<lparr>connected := False, closed := True\<rparr>"

definition connectSocket :: "Client \<Rightarrow> Client" where
  "connectSocket c =
     (let (ref, c1) = io c;
          c2 = c1\<lparr>sockets := (sockets c1)
                 [ref := on ''connect_error'' connect_error_listener
                           (on ''disconnect'' disconnect_listener
                              (on ''connect'' connect_listener (sockets c1 ! ref)))]\<rparr>
      in c2\<lparr>socketState := setSocket ref (socketState c2)\<rparr>)"

definition disconnectSocket :: "Client \<Rightarrow> Client" where
  "disconnectSocket c =
     (case socket (socketState c) of
        Some ref \<Rightarrow>
          c\<lparr>sockets := (sockets c)[ref := disconnect (sockets c ! ref)],
            socketState := clearSocket (socketState c)\<rparr>
      | None \<Rightarrow> c)"

text \<open>The connections that are open, and the lifecycle listeners registered on them.\<close>

definition live :: "Client \<Rightarrow> Socket list" where
  "live c = filter (\<lambda>k. \<not> closed k) (sockets c)"

definition registered :: "Client \<Rightarrow> (string \<times> listener) list" where
  "registered c = concat (map listeners (live c))"

section \<open>Example states\<close>

definition example_socket :: Socket where
  "example_socket = \<lparr>connected = True, closed = False, listeners = [], sent = []\<rparr>"

definition offline_socket :: Socket where
  "offline_socket = \<lparr>connected = False, closed = False, listeners = [], sent = []\<rparr>"

definition example_draft :: ChatState where
  "example_draft = setCurrentInput (js ''hello'') (initialState 0)"

definition example_busy :: ChatState where
  "example_busy = setProcessing True (setCurrentInput (js ''again'') (initialState 0))"

definition example_status :: SystemState where
  "example_status =
     \<lparr>engines = [], overallHealth = js ''good'', godlikeMode = True, activeSessions = 3,
      uptime = js ''5m''\<rparr>"

definition example_engine :: Engine where
  "example_engine =
     \<lparr>engine_name = js ''Reasoning'', engine_status = EngineActive, activity = 80,
      lastUsed = None\<rparr>"

definition fresh_client :: Client where
  "fresh_client = \<lparr>socketState = socketInitialState, sockets = []\<rparr>"

section \<open>Facts about the library functions and the reducers\<close>

lemmas chat_reducers = addMessage_def setProcessing_def setActiveEngines_def setCurrentInput_def

lemma emit_chat_message:
  "emit ''chat_message'' p k = Inr (k\<lparr>sent := sent k @ [(''chat_message'', p)]\<rparr>)"
  by (simp add: emit_def reservedEvents_def)

lemma emit_request_system_status:
  "emit ''request_system_status'' p k =
     Inr (k\<lparr>sent := sent k @ [(''request_system_status'', p)]\<rparr>)"
  by (simp add: emit_def reservedEvents_def)

lemma trim_hello: "trim (js ''hello'') \<noteq> []"
  by (simp add: trim_def js_def isWhiteSpace_def)

section \<open>The conversation store\<close>

subsection \<open>Rejected and accepted submits\<close>

lemma handleSendMessage_rejected:
  "trim (currentInput (snd w)) = [] \<or> isProcessing (snd w) \<Longrightarrow>
   handleSendMessage i1 i2 u p w = w"
  by (simp add: handleSendMessage_def)

lemma run_user_action_in_flight:
  "isProcessing (snd w) \<Longrightarrow> user_action x \<Longrightarrow>
   fst (run t0 x w) = fst w \<and> messages (snd (run t0 x w)) = messages (snd w)
   \<and> isProcessing (snd (run t0 x w))"
  by (cases x) (simp_all add: handleSendMessage_rejected chat_reducers)

lemma runs_user_actions_in_flight:
  "isProcessing (snd w) \<Longrightarrow> list_all user_action xs \<Longrightarrow>
   fst (runs t0 xs w) = fst w \<and> messages (snd (runs t0 xs w)) = messages (snd w)
   \<and> isProcessing (snd (runs t0 xs w))"
proof (induction xs arbitrary: w)
  case Nil
  then show ?case by simp
next
  case (Cons x xs)
  have step: "fst (run t0 x w) = fst w \<and> messages (snd (run t0 x w)) = messages (snd w)
      \<and> isProcessing (snd (run t0 x w))"
    using Cons.prems by (intro run_user_action_in_flight) simp_all
  with Cons.IH[of "run t0 x w"] Cons.prems show ?case by simp
qed

lemma handleSendMessage_emits:
  "emitted (fst (handleSendMessage i1 i2 u p w)) = emitted (fst w)
   \<or> (isProcessing (snd (handleSendMessage i1 i2 u p w))
       \<and> length (emitted (fst (handleSendMessage i1 i2 u p w))) = length (emitted (fst w)) + 1)"
  by (simp add: handleSendMessage_def Let_def chat_reducers emit_chat_message emitted_def
      split: option.splits)

lemma runs_user_actions_emit_once:
  "list_all user_action xs \<Longrightarrow>
   length (emitted (fst (runs t0 xs w))) \<le> length (emitted (fst w)) + 1"
proof (induction xs arbitrary: w)
  case Nil
  then show ?case by simp
next
  case (Cons x xs)
  from Cons.prems have ua: "user_action x" and rest: "list_all user_action xs" by simp_all
  show ?case
  proof (cases x)
    case (SetCurrentInput y)
    then have "fst (run t0 x w) = fst w" by simp
    with Cons.IH[OF rest, of "run t0 x w"] show ?thesis by simp
  next
    case (SendMessage i1 i2 u p)
    let ?w' = "handleSendMessage i1 i2 u p w"
    from handleSendMessage_emits[of i1 i2 u p w] show ?thesis
    proof
      assume "emitted (fst ?w') = emitted (fst w)"
      with Cons.IH[OF rest, of ?w'] SendMessage show ?thesis by simp
    next
      assume a: "isProcessing (snd ?w')
        \<and> length (emitted (fst ?w')) = length (emitted (fst w)) + 1"
      then have "fst (runs t0 xs ?w') = fst ?w'"
        using runs_user_actions_in_flight[of ?w' xs t0] rest by simp
      with a SendMessage show ?thesis by simp
    qed
  qed (use ua in simp_all)
qed

lemma handleSendMessage_accepted_user_message:
  "\<not> isProcessing (snd v) \<Longrightarrow> trim (currentInput (snd v)) \<noteq> [] \<Longrightarrow>
   user_messages (snd (handleSendMessage i1 i2 u p v)) =
     user_messages (snd v) @
       [\<lparr>msg_id = toString (fst i1), msg_type = User, content = currentInput (snd v),
         timestamp = snd i1, confidence = None, enginesUsed = None, processingTime = None\<rparr>]"
  by (simp add: handleSendMessage_def Let_def chat_reducers emit_chat_message user_messages_def
      split: option.splits)

text \<open>
  C1 (single flight). Pressing send while \<open>isProcessing\<close> is true, or with a draft that is
  empty or only white space, changes neither the store nor the socket: no message is
  appended and nothing is emitted. While a request is in flight, whatever the user types
  and however often send is pressed, the log and the emitted requests stay as they are
  and the flag stays set. Any sequence of typing and sending emits at most one request,
  and an accepted submit appends the user's message exactly once. A press of send that
  emits at all starts with \<open>isProcessing\<close> false, emits one request and ends with
  \<open>isProcessing\<close> true, so a second request needs a resolution in between.
\<close>

theorem single_flight:
  "(isProcessing (snd w) \<or> trim (currentInput (snd w)) = [] \<longrightarrow>
      handleSendMessage i j u p w = w)
   \<and> (isProcessing (snd w) \<and> list_all user_action xs \<longrightarrow>
        emitted (fst (runs t xs w)) = emitted (fst w)
        \<and> messages (snd (runs t xs w)) = messages (snd w)
        \<and> isProcessing (snd (runs t xs w)))
   \<and> (list_all user_action xs \<longrightarrow>
        length (emitted (fst (runs t xs w))) \<le> length (emitted (fst w)) + 1)
   \<and> (\<not> isProcessing (snd v) \<and> trim (currentInput (snd v)) \<noteq> [] \<longrightarrow>
        user_messages (snd (handleSendMessage i j u p v)) =
          user_messages (snd v) @
            [\<lparr>msg_id = toString (fst i), msg_type = User, content = currentInput (snd v),
              timestamp = snd i, confidence = None, enginesUsed = None,
              processingTime = None\<rparr>])
   \<and> (emitted (fst (handleSendMessage i j u p v)) \<noteq> emitted (fst v) \<longrightarrow>
        \<not> isProcessing (snd v) \<and> isProcessing (snd (handleSendMessage i j u p v))
        \<and> length (emitted (fst (handleSendMessage i j u p v))) = length (emitted (fst v)) + 1)"
proof (intro conjI impI)
  assume "isProcessing (snd w) \<or> trim (currentInput (snd w)) = []"
  then show "handleSendMessage i j u p w = w"
    by (intro handleSendMessage_rejected) blast
next
  assume a: "isProcessing (snd w) \<and> list_all user_action xs"
  with runs_user_actions_in_flight[of w xs t]
  show "emitted (fst (runs t xs w)) = emitted (fst w)"
    and "messages (snd (runs t xs w)) = messages (snd w)"
    and "isProcessing (snd (runs t xs w))" by simp_all
next
  assume "list_all user_action xs"
  then show "length (emitted (fst (runs t xs w))) \<le> length (emitted (fst w)) + 1"
    by (rule runs_user_actions_emit_once)
next
  assume "\<not> isProcessing (snd v) \<and> trim (currentInput (snd v)) \<noteq> []"
  then show "user_messages (snd (handleSendMessage i j u p v)) =
          user_messages (snd v) @
            [\<lparr>msg_id = toString (fst i), msg_type = User, content = currentInput (snd v),
              timestamp = snd i, confidence = None, enginesUsed = None,
              processingTime = None\<rparr>]"
    by (intro handleSendMessage_accepted_user_message) simp_all
next
  assume ne: "emitted (fst (handleSendMessage i j u p v)) \<noteq> emitted (fst v)"
  then show "\<not> isProcessing (snd v)"
    using handleSendMessage_rejected[of v i j u p] by auto
  from ne handleSendMessage_emits[of i j u p v]
  show "isProcessing (snd (handleSendMessage i j u p v))"
    and "length (emitted (fst (handleSendMessage i j u p v))) = length (emitted (fst v)) + 1"
    by simp_all
qed

theorem single_flight_witness:
  "isProcessing (snd (Some example_socket, example_busy))
   \<and> list_all user_action [SetCurrentInput (js ''hello''), SendMessage (1, 1) (2, 2) None None]
   \<and> handleSendMessage (1, 1) (2, 2) None None (Some example_socket, example_busy)
       = (Some example_socket, example_busy)
   \<and> emitted (fst (runs 0 [SetCurrentInput (js ''hello''), SendMessage (1, 1) (2, 2) None None]
        (Some example_socket, example_busy))) = []
   \<and> messages (snd (runs 0 [SetCurrentInput (js ''hello''), SendMessage (1, 1) (2, 2) None None]
        (Some example_socket, example_busy))) = messages (initialState 0)
   \<and> \<not> isProcessing (snd (Some example_socket, example_draft))
   \<and> trim (currentInput (snd (Some example_socket, example_draft))) \<noteq> []
   \<and> user_messages (snd (handleSendMessage (1, 1) (2, 2) None None
        (Some example_socket, example_draft))) =
       [\<lparr>msg_id = toString 1, msg_type = User, content = js ''hello'', timestamp = 1,
         confidence = None, enginesUsed = None, processingTime = None\<rparr>]
   \<and> emitted (fst (handleSendMessage (1, 1) (2, 2) None None
        (Some example_socket, example_draft))) \<noteq> emitted (Some example_socket)
   \<and> length (emitted (fst (handleSendMessage (1, 1) (2, 2) None None
        (Some example_socket, example_draft)))) = 1
   \<and> isProcessing (snd (handleSendMessage (1, 1) (2, 2) None None
        (Some example_socket, example_draft)))"
  using single_flight[where w = "(Some example_socket, example_busy)" and i = "(1, 1)"
      and j = "(2, 2)" and u = None and p = None and t = 0
      and xs = "[SetCurrentInput (js ''hello''), SendMessage (1, 1) (2, 2) None None]"
      and v = "(Some example_socket, example_draft)"]
  by (simp add: example_busy_def example_draft_def example_socket_def chat_reducers
      initialState_def emitted_def user_messages_def trim_hello handleSendMessage_def
      emit_chat_message Let_def)

subsection \<open>The log only grows\<close>

lemma handleSendMessage_messages_mono:
  "length (messages (snd w)) \<le> length (messages (snd (handleSendMessage i1 i2 u p w)))"
  by (simp add: handleSendMessage_def Let_def chat_reducers emit_chat_message
      split: option.splits)

lemma socket_on_messages_mono:
  "length (messages s)
   \<le> length (messages (case socket_on i ev s of Inr s' \<Rightarrow> s' | Inl (_, s') \<Rightarrow> s'))"
  by (cases ev)
    (simp_all add: handleChatResponse_def handleProcessingStatus_def handleError_def Let_def
      chat_reducers split: option.splits)

lemma run_messages_mono:
  "x \<noteq> ClearMessages \<Longrightarrow>
   length (messages (snd w)) \<le> length (messages (snd (run t0 x w)))"
proof (cases x)
  case (SendMessage i1 i2 u p)
  then show ?thesis using handleSendMessage_messages_mono by simp
next
  case (Inbound i ev)
  then show ?thesis using socket_on_messages_mono[of "snd w" i ev]
    by (simp split: sum.splits prod.splits)
qed (simp_all add: chat_reducers)

lemma runs_messages_mono:
  "ClearMessages \<notin> set xs \<Longrightarrow>
   length (messages (snd w)) \<le> length (messages (snd (runs t0 xs w)))"
proof (induction xs arbitrary: w)
  case Nil
  then show ?case by simp
next
  case (Cons x xs)
  have "length (messages (snd w)) \<le> length (messages (snd (run t0 x w)))"
    using Cons.prems by (intro run_messages_mono) auto
  also have "\<dots> \<le> length (messages (snd (runs t0 xs (run t0 x w))))"
    using Cons.prems by (intro Cons.IH) auto
  finally show ?case by simp
qed

text \<open>
  C6 (append-only log). Every operation of the conversation store other than the clear
  action leaves the log at least as long as it was, and so does every sequence of such
  operations. The clear action resets the log to the one welcome message of the initial
  state and changes neither \<open>isProcessing\<close> nor the socket.
\<close>

theorem append_only_log:
  "(x \<noteq> ClearMessages \<longrightarrow>
      length (messages (snd w)) \<le> length (messages (snd (run t x w))))
   \<and> (ClearMessages \<notin> set xs \<longrightarrow>
        length (messages (snd w)) \<le> length (messages (snd (runs t xs w))))
   \<and> messages (snd (run t ClearMessages w)) = messages (initialState t)
   \<and> length (messages (snd (run t ClearMessages w))) = 1
   \<and> isProcessing (snd (run t ClearMessages w)) = isProcessing (snd w)
   \<and> fst (run t ClearMessages w) = fst w"
  using run_messages_mono[of x w t] runs_messages_mono[of xs w t]
  by (simp add: handleClearChat_def clearMessages_def initialState_def)

theorem append_only_log_witness:
  "SendMessage (1, 1) (2, 2) None None \<noteq> ClearMessages
   \<and> ClearMessages \<notin> set [SendMessage (1, 1) (2, 2) None None,
        Inbound (3, 3) (on_error (Some \<lparr>message = None\<rparr>))]
   \<and> length (messages (snd (run 0 (SendMessage (1, 1) (2, 2) None None) (None, example_draft)))) = 3
   \<and> length (messages (snd (runs 0 [SendMessage (1, 1) (2, 2) None None,
        Inbound (3, 3) (on_error (Some \<lparr>message = None\<rparr>))] (None, example_draft)))) = 4
   \<and> messages (snd (run 0 ClearMessages (None, example_busy))) = messages (initialState 0)
   \<and> isProcessing (snd (run 0 ClearMessages (None, example_busy)))"
  using append_only_log[where x = "SendMessage (1, 1) (2, 2) None None" and t = 0
      and w = "(None, example_draft)"
      and xs = "[SendMessage (1, 1) (2, 2) None None,
        Inbound (3, 3) (on_error (Some \<lparr>message = None\<rparr>))]"]
    append_only_log[where t = 0 and w = "(None, example_busy)"]
  by (simp add: example_busy_def example_draft_def chat_reducers initialState_def trim_hello
      handleSendMessage_def handleError_def Let_def handleClearChat_def clearMessages_def)

subsection \<open>Submitting without a connection\<close>

text \<open>
  C9 (disconnected submit). When no request is in flight, the draft is not blank and the
  store has no socket or a socket that is not connected, pressing send appends the user's
  message and after it exactly one system message with the not-connected notice, leaves
  \<open>isProcessing\<close> false, clears the draft, and leaves the socket as it was: nothing is
  emitted.
\<close>

theorem disconnected_submit:
  assumes "\<not> isProcessing (snd w)"
    and "trim (currentInput (snd w)) \<noteq> []"
    and "case fst w of None \<Rightarrow> True | Some k \<Rightarrow> \<not> connected k"
  shows "handleSendMessage i j u p w =
           (fst w,
            (snd w)\<lparr>messages := messages (snd w) @
                [\<lparr>msg_id = toString (fst i), msg_type = User, content = currentInput (snd w),
                  timestamp = snd i, confidence = None, enginesUsed = None,
                  processingTime = None\<rparr>,
                 \<lparr>msg_id = toString (fst j), msg_type = System,
                  content = js ''Not connected to Supreme Jarvis backend. Please check the connection.'',
                  timestamp = snd j, confidence = None, enginesUsed = None,
                  processingTime = None\<rparr>],
              isProcessing := False, currentInput := []\<rparr>)"
  using assms
  by (cases w) (simp add: handleSendMessage_def Let_def chat_reducers split: option.splits)

theorem disconnected_submit_witness:
  "\<not> isProcessing (snd (Some offline_socket, example_draft))
   \<and> trim (currentInput (snd (Some offline_socket, example_draft))) \<noteq> []
   \<and> \<not> connected offline_socket
   \<and> fst (handleSendMessage (1, 1) (2, 2) None None (Some offline_socket, example_draft))
       = Some offline_socket
   \<and> map msg_type (messages (snd (handleSendMessage (1, 1) (2, 2) None None
        (Some offline_socket, example_draft)))) = [System, User, System]
   \<and> \<not> isProcessing (snd (handleSendMessage (1, 1) (2, 2) None None
        (Some offline_socket, example_draft)))"
  using disconnected_submit[where w = "(Some offline_socket, example_draft)" and i = "(1, 1)"
      and j = "(2, 2)" and u = None and p = None]
  by (simp add: example_draft_def offline_socket_def chat_reducers initialState_def trim_hello)

subsection \<open>Inbound events\<close>

text \<open>
  C10 (unguarded error resolution). An \<open>error\<close> event that carries an object and arrives
  while no request is in flight is applied in full: the handler registered on the socket
  appends a system message made of \<open>Error: \<close> and the event's message (or the default
  text), leaves \<open>isProcessing\<close> false and empties \<open>activeEngines\<close>. The handler does not
  read \<open>isProcessing\<close>.
\<close>

theorem unguarded_error:
  assumes "\<not> isProcessing state"
  shows "socket_on i (on_error (Some e)) state =
           Inr (state\<lparr>messages := messages state @
                  [\<lparr>msg_id = toString (fst i), msg_type = System,
                    content = js ''Error: '' @ or_string (message e) (js ''Unknown error occurred''),
                    timestamp = snd i, confidence = None, enginesUsed = None,
                    processingTime = None\<rparr>],
                isProcessing := False, activeEngines := []\<rparr>)"
  by (simp add: handleError_def Let_def chat_reducers)

theorem unguarded_error_witness:
  "\<not> isProcessing (setActiveEngines [js ''Reasoning''] (initialState 0))
   \<and> socket_on (7, 7) (on_error (Some \<lparr>message = Some (js ''boom'')\<rparr>))
        (setActiveEngines [js ''Reasoning''] (initialState 0)) =
       Inr ((initialState 0)\<lparr>messages := messages (initialState 0) @
              [\<lparr>msg_id = toString 7, msg_type = System, content = js ''Error: '' @ js ''boom'',
                timestamp = 7, confidence = None, enginesUsed = None,
                processingTime = None\<rparr>]\<rparr>)"
  using unguarded_error[where state = "setActiveEngines [js ''Reasoning''] (initialState 0)"
      and i = "(7, 7)" and e = "\<lparr>message = Some (js ''boom'')\<rparr>"]
  by (simp add: chat_reducers initialState_def or_string_def js_def)

text \<open>
  C4 (chat response), as the code has it. A \<open>chat_response\<close> event that carries an object
  appends exactly one assistant message, sets \<open>isProcessing\<close> to false and empties
  \<open>activeEngines\<close>. A missing (or empty) \<open>response\<close> becomes the placeholder text. The
  fields \<open>confidence\<close>, \<open>enginesUsed\<close> and \<open>processingTime\<close> are always present on the
  message: a missing \<open>confidence\<close> or \<open>processing_time\<close> becomes 0 and a missing
  \<open>engines_used\<close> becomes the empty list.
\<close>

theorem chat_response_applied:
  "messages (handleChatResponse i (Some r) state) =
     messages state @
       [\<lparr>msg_id = toString (fst i), msg_type = Assistant,
         content = or_string (response r) (js ''No response received''),
         timestamp = snd i,
         confidence = Some (or_number (response_confidence r) 0),
         enginesUsed = Some (or_array (engines_used r) []),
         processingTime = Some (or_number (processing_time r) 0)\<rparr>]
   \<and> (response r = None \<longrightarrow>
        content (last (messages (handleChatResponse i (Some r) state)))
          = js ''No response received'')
   \<and> (response_confidence r = None \<longrightarrow>
        confidence (last (messages (handleChatResponse i (Some r) state))) = Some 0)
   \<and> (engines_used r = None \<longrightarrow>
        enginesUsed (last (messages (handleChatResponse i (Some r) state))) = Some [])
   \<and> (processing_time r = None \<longrightarrow>
        processingTime (last (messages (handleChatResponse i (Some r) state))) = Some 0)
   \<and> isProcessing (handleChatResponse i (Some r) state) = False
   \<and> activeEngines (handleChatResponse i (Some r) state) = []
   \<and> currentInput (handleChatResponse i (Some r) state) = currentInput state"
  by (simp add: handleChatResponse_def Let_def chat_reducers or_string_def or_number_def
      or_array_def)

theorem chat_response_applied_witness:
  "response \<lparr>response = None, response_confidence = None, engines_used = None,
             processing_time = None\<rparr> = None
   \<and> messages (handleChatResponse (9, 9)
        (Some \<lparr>response = None, response_confidence = None, engines_used = None,
               processing_time = None\<rparr>) example_busy) =
       messages (initialState 0) @
         [\<lparr>msg_id = toString 9, msg_type = Assistant, content = js ''No response received'',
           timestamp = 9, confidence = Some 0, enginesUsed = Some [],
           processingTime = Some 0\<rparr>]
   \<and> \<not> isProcessing (handleChatResponse (9, 9)
        (Some \<lparr>response = None, response_confidence = None, engines_used = None,
               processing_time = None\<rparr>) example_busy)"
  using chat_response_applied[where i = "(9, 9)" and state = example_busy
      and r = "\<lparr>response = None, response_confidence = None, engines_used = None,
                 processing_time = None\<rparr>"]
  by (simp add: example_busy_def chat_reducers initialState_def or_string_def or_number_def
      or_array_def)

text \<open>
  The claim as the specification states it fails: on a response \<open>{response: "hi"}\<close> the
  appended message has \<open>confidence\<close> 0, \<open>enginesUsed\<close> the empty list and \<open>processingTime\<close>
  0; none of the three fields is absent.
\<close>

theorem chat_response_absent_counterexample:
  "confidence (last (messages (handleChatResponse (1700000000000, 1700000000000)
      (Some \<lparr>response = Some (js ''hi''), response_confidence = None, engines_used = None,
             processing_time = None\<rparr>) (initialState 0)))) = Some 0
   \<and> enginesUsed (last (messages (handleChatResponse (1700000000000, 1700000000000)
      (Some \<lparr>response = Some (js ''hi''), response_confidence = None, engines_used = None,
             processing_time = None\<rparr>) (initialState 0)))) = Some []
   \<and> processingTime (last (messages (handleChatResponse (1700000000000, 1700000000000)
      (Some \<lparr>response = Some (js ''hi''), response_confidence = None, engines_used = None,
             processing_time = None\<rparr>) (initialState 0)))) = Some 0"
  by (simp add: handleChatResponse_def Let_def chat_reducers or_string_def or_number_def
      or_array_def)

section \<open>The system status store\<close>

text \<open>
  C3 (full status), as the code has it. A \<open>system_status\<close> event that carries an object
  replaces the engines with the payload's list when it has one (and keeps the engines
  otherwise) and overwrites the four aggregate fields. A missing (or falsy) field falls
  back to \<open>unknown\<close> for the health, \<open>false\<close> for the godlike mode, 1 for the active
  sessions and \<open>0m\<close> for the uptime. An event with no object changes nothing.
\<close>

theorem full_status_applied:
  "engines (handleSystemStatus (Some st) state) =
     (case status_engines st of Some es \<Rightarrow> es | None \<Rightarrow> engines state)
   \<and> overallHealth (handleSystemStatus (Some st) state)
       = or_string (overall_health st) (js ''unknown'')
   \<and> godlikeMode (handleSystemStatus (Some st) state) = or_boolean (godlike_mode st) False
   \<and> activeSessions (handleSystemStatus (Some st) state) = or_number (active_sessions st) 1
   \<and> uptime (handleSystemStatus (Some st) state) = or_string (status_uptime st) (js ''0m'')
   \<and> (overall_health st = None \<longrightarrow>
        overallHealth (handleSystemStatus (Some st) state) = js ''unknown'')
   \<and> (godlike_mode st = None \<longrightarrow> godlikeMode (handleSystemStatus (Some st) state) = False)
   \<and> (active_sessions st = None \<longrightarrow> activeSessions (handleSystemStatus (Some st) state) = 1)
   \<and> (status_uptime st = None \<longrightarrow> uptime (handleSystemStatus (Some st) state) = js ''0m'')
   \<and> handleSystemStatus None state = state"
  by (simp add: handleSystemStatus_def setEngines_def setSystemStatus_def or_string_def
      or_number_def or_boolean_def split: option.splits)

theorem full_status_applied_witness:
  "overall_health \<lparr>status_engines = Some [example_engine], overall_health = None,
        godlike_mode = None, active_sessions = None, status_uptime = None\<rparr> = None
   \<and> handleSystemStatus
        (Some \<lparr>status_engines = Some [example_engine], overall_health = None,
               godlike_mode = None, active_sessions = None, status_uptime = None\<rparr>)
        example_status =
       \<lparr>engines = [example_engine], overallHealth = js ''unknown'', godlikeMode = False,
        activeSessions = 1, uptime = js ''0m''\<rparr>"
  using full_status_applied[where state = example_status
      and st = "\<lparr>status_engines = Some [example_engine], overall_health = None,
                  godlike_mode = None, active_sessions = None, status_uptime = None\<rparr>"]
  by (simp add: example_status_def handleSystemStatus_def setEngines_def setSystemStatus_def
      or_string_def or_number_def or_boolean_def)

text \<open>
  The claim as the specification states it fails: on a payload without \<open>active_sessions\<close>
  the store's \<open>activeSessions\<close> becomes 1, not 0.
\<close>

theorem full_status_sessions_counterexample:
  "activeSessions (handleSystemStatus
      (Some \<lparr>status_engines = Some [], overall_health = Some (js ''good''),
             godlike_mode = Some True, active_sessions = None,
             status_uptime = Some (js ''5m'')\<rparr>) systemInitialState) = 1
   \<and> activeSessions (handleSystemStatus
      (Some \<lparr>status_engines = Some [], overall_health = Some (js ''good''),
             godlike_mode = Some True, active_sessions = None,
             status_uptime = Some (js ''5m'')\<rparr>) systemInitialState) \<noteq> 0"
  by (simp add: handleSystemStatus_def setEngines_def setSystemStatus_def or_string_def
      or_number_def or_boolean_def systemInitialState_def js_def)

text \<open>
  C8 (frame of engine activity). An \<open>engine_activity\<close> event leaves the health, the godlike
  mode, the active sessions and the uptime as they were, whatever it carries; when it
  carries an engines list, the store after it is the store before it with the engines
  replaced by that list.
\<close>

theorem engine_activity_frame:
  "overallHealth (handleEngineActivity a state) = overallHealth state
   \<and> godlikeMode (handleEngineActivity a state) = godlikeMode state
   \<and> activeSessions (handleEngineActivity a state) = activeSessions state
   \<and> uptime (handleEngineActivity a state) = uptime state
   \<and> (activity_engines p = Some es \<longrightarrow>
        handleEngineActivity (Some p) state = state\<lparr>engines := es\<rparr>)"
  by (simp add: handleEngineActivity_def setEngines_def split: option.splits)

theorem engine_activity_frame_witness:
  "activity_engines \<lparr>activity_engines = Some [example_engine]\<rparr> = Some [example_engine]
   \<and> handleEngineActivity (Some \<lparr>activity_engines = Some [example_engine]\<rparr>) example_status =
       \<lparr>engines = [example_engine], overallHealth = js ''good'', godlikeMode = True,
        activeSessions = 3, uptime = js ''5m''\<rparr>"
  using engine_activity_frame[where state = example_status and es = "[example_engine]"
      and p = "\<lparr>activity_engines = Some [example_engine]\<rparr>"
      and a = "Some \<lparr>activity_engines = Some [example_engine]\<rparr>"]
  by (simp add: example_status_def)

section \<open>The pollers\<close>

text \<open>
  C5 (poller guard), as the code has it. The only guard is on the existence of a socket
  object, read once when the panel's effect runs: with no socket the effect starts no
  timer and requests nothing, so a tick does nothing. With a socket, connected or not,
  the effect starts the timer (5000 ms for the status, 10000 ms for the metrics), every
  status tick calls \<open>emit\<close> with \<open>request_system_status\<close> and every metrics tick fetches
  the two endpoints. A tick never stops the timer; the cleanup of the effect does.
\<close>

theorem poller_socket_guard:
  "StatusPanel_effect None = \<lparr>poller_socket = None, interval = None\<rparr>
   \<and> StatusPanel_tick (StatusPanel_effect None) = StatusPanel_effect None
   \<and> MetricsPanel_effect None = \<lparr>metrics_interval = None, requests = []\<rparr>
   \<and> MetricsPanel_tick (MetricsPanel_effect None) = MetricsPanel_effect None
   \<and> interval (StatusPanel_effect (Some k)) = Some 5000
   \<and> metrics_interval (MetricsPanel_effect (Some k)) = Some 10000
   \<and> (interval p = Some n \<and> poller_socket p = Some k \<longrightarrow>
        poller_socket (StatusPanel_tick p) =
          Some (k\<lparr>sent := sent k @ [(''request_system_status'', NoPayload)]\<rparr>))
   \<and> (metrics_interval m = Some n \<longrightarrow>
        requests (MetricsPanel_tick m) =
          requests m @ [''/api/system/metrics'', ''/api/system/performance''])
   \<and> interval (StatusPanel_tick p) = interval p
   \<and> metrics_interval (MetricsPanel_tick m) = metrics_interval m
   \<and> interval (StatusPanel_cleanup p) = None
   \<and> metrics_interval (MetricsPanel_cleanup m) = None"
  by (simp add: StatusPanel_effect_def StatusPanel_tick_def StatusPanel_cleanup_def
      MetricsPanel_effect_def MetricsPanel_tick_def MetricsPanel_cleanup_def requestMetrics_def
      requestStatus_def emit_request_system_status split: option.splits)

theorem poller_socket_guard_witness:
  "interval (StatusPanel_effect (Some offline_socket)) = Some 5000
   \<and> \<not> connected offline_socket
   \<and> sent (the (poller_socket (StatusPanel_tick (StatusPanel_effect (Some offline_socket))))) =
       [(''request_system_status'', NoPayload), (''request_system_status'', NoPayload)]
   \<and> metrics_interval (MetricsPanel_effect (Some offline_socket)) = Some 10000
   \<and> requests (MetricsPanel_tick (MetricsPanel_effect (Some offline_socket))) =
       [''/api/system/metrics'', ''/api/system/performance'',
        ''/api/system/metrics'', ''/api/system/performance'']"
  using poller_socket_guard[where p = "StatusPanel_effect (Some offline_socket)"
      and n = 5000 and m = "MetricsPanel_effect (Some offline_socket)"
      and k = "on ''engine_activity'' handleEngineActivity_listener
                 (on ''system_status'' handleSystemStatus_listener
                    (requestStatus offline_socket))"]
    poller_socket_guard[where m = "MetricsPanel_effect (Some offline_socket)"
      and n = 10000 and k = offline_socket]
  by (simp add: StatusPanel_effect_def MetricsPanel_effect_def requestMetrics_def
      requestStatus_def emit_request_system_status offline_socket_def on_def)

text \<open>
  The claim as the specification states it fails: with a timer running on a socket that
  is not connected, a status tick calls \<open>emit\<close>.
\<close>

theorem poller_tick_counterexample:
  "\<not> connected offline_socket
   \<and> StatusPanel_tick \<lparr>poller_socket = Some offline_socket, interval = Some 5000\<rparr>
      = \<lparr>poller_socket =
           Some \<lparr>connected = False, closed = False, listeners = [],
                 sent = [(''request_system_status'', NoPayload)]\<rparr>,
         interval = Some 5000\<rparr>
   \<and> requests (MetricsPanel_tick (MetricsPanel_effect (Some offline_socket)))
      \<noteq> requests (MetricsPanel_effect (Some offline_socket))"
  by (simp add: StatusPanel_tick_def requestStatus_def emit_request_system_status
      offline_socket_def MetricsPanel_tick_def MetricsPanel_effect_def requestMetrics_def)

section \<open>The control settings\<close>

lemma emit_update_control_settings:
  "emit ''update_control_settings'' p k =
     Inr (k\<lparr>sent := sent k @ [(''update_control_settings'', p)]\<rparr>)"
  by (simp add: emit_def reservedEvents_def)

text \<open>
  C7 (save without a connection), as the code has it. \<open>saveSettings\<close> is guarded only by
  the existence of a socket object. With no socket object it emits nothing. With a socket
  object, connected or not, it calls \<open>emit\<close> with \<open>update_control_settings\<close> and the whole
  local map. In every case it returns normally and the local settings are as they were,
  so a toggle made before the save is still in the local map after it.
\<close>

theorem save_socket_guard:
  "saveSettings (None, cs) = Inr (None, cs)
   \<and> saveSettings (Some k, cs) =
       Inr (Some (k\<lparr>sent := sent k @ [(''update_control_settings'', ControlSettings cs)]\<rparr>), cs)
   \<and> (\<exists>so'. saveSettings (so, cs) = Inr (so', cs))
   \<and> saveSettings (None, handleControlChange key checked cs) =
       Inr (None, handleControlChange key checked cs)
   \<and> map_of (handleControlChange key checked cs) key = Some (Flag checked)"
  by (cases so)
    (simp_all add: saveSettings_def handleControlChange_def update_conv
      emit_update_control_settings)

theorem save_socket_guard_witness:
  "saveSettings (None, handleControlChange ''voiceControl'' True
       [(''webSearch'', Flag False), (''voiceControl'', Flag False), (''responseSpeed'', Level (3 / 10))])
     = Inr (None, [(''webSearch'', Flag False), (''voiceControl'', Flag True),
                   (''responseSpeed'', Level (3 / 10))])
   \<and> saveSettings (Some example_socket, [(''voiceControl'', Flag True)]) =
       Inr (Some \<lparr>connected = True, closed = False, listeners = [],
                  sent = [(''update_control_settings'',
                           ControlSettings [(''voiceControl'', Flag True)])]\<rparr>,
            [(''voiceControl'', Flag True)])"
  using save_socket_guard[where key = "''voiceControl''" and checked = True
      and cs = "[(''webSearch'', Flag False), (''voiceControl'', Flag False),
                 (''responseSpeed'', Level (3 / 10))]"]
    save_socket_guard[where k = example_socket and cs = "[(''voiceControl'', Flag True)]"]
  by (simp add: handleControlChange_def example_socket_def)

text \<open>
  The claim as the specification states it fails: on a socket object that is not
  connected, \<open>saveSettings\<close> calls \<open>emit\<close> with the settings, so the save is not a no-op.
\<close>

theorem save_disconnected_counterexample:
  "\<not> connected offline_socket
   \<and> saveSettings (Some offline_socket, [(''voiceControl'', Flag True)]) =
       Inr (Some \<lparr>connected = False, closed = False, listeners = [],
                  sent = [(''update_control_settings'',
                           ControlSettings [(''voiceControl'', Flag True)])]\<rparr>,
            [(''voiceControl'', Flag True)])
   \<and> saveSettings (Some offline_socket, [(''voiceControl'', Flag True)])
       \<noteq> Inr (Some offline_socket, [(''voiceControl'', Flag True)])"
  by (simp add: saveSettings_def emit_update_control_settings offline_socket_def)

section \<open>The transport connection\<close>

lemma connectSocket_sockets:
  "sockets (connectSocket c) =
     sockets c @
       [\<lparr>connected = False, closed = False,
         listeners = [(''connect'', connect_listener), (''disconnect'', disconnect_listener),
                      (''connect_error'', connect_error_listener)],
         sent = []\<rparr>]"
  by (simp add: connectSocket_def io_def on_def Let_def)

lemma connectSocket_socket:
  "socket (socketState (connectSocket c)) = Some (length (sockets c))"
  by (simp add: connectSocket_def io_def setSocket_def Let_def)

lemma connectSocket_live: "length (live (connectSocket c)) = length (live c) + 1"
  by (simp add: live_def connectSocket_sockets)

lemma connectSocket_registered:
  "registered (connectSocket c) =
     registered c @ [(''connect'', connect_listener), (''disconnect'', disconnect_listener),
                     (''connect_error'', connect_error_listener)]"
  by (simp add: registered_def live_def connectSocket_sockets)

lemma disconnect_connectSocket_sockets:
  "sockets (disconnectSocket (connectSocket c)) =
     sockets c @
       [\<lparr>connected = False, closed = True,
         listeners = [(''connect'', connect_listener), (''disconnect'', disconnect_listener),
                      (''connect_error'', connect_error_listener)],
         sent = []\<rparr>]"
  by (simp add: disconnectSocket_def connectSocket_socket connectSocket_sockets disconnect_def)

lemma disconnect_connectSocket_live: "live (disconnectSocket (connectSocket c)) = live c"
  by (simp add: live_def disconnect_connectSocket_sockets)

lemma disconnect_connectSocket_registered:
  "registered (disconnectSocket (connectSocket c)) = registered c"
  by (simp add: registered_def disconnect_connectSocket_live)

lemma fresh_client_live: "live fresh_client = []"
  by (simp add: live_def fresh_client_def)

lemma fresh_client_registered: "registered fresh_client = []"
  by (simp add: registered_def fresh_client_live)

text \<open>
  C2 (connect), as the code has it. \<open>connectSocket\<close> does not look at the store: every
  call creates one new socket, registers on it one set of three lifecycle listeners
  (\<open>connect\<close>, \<open>disconnect\<close>, \<open>connect_error\<close>) and makes it the socket of the store, while
  the sockets created before stay as they are. Each call therefore adds one open
  connection and one set of listeners. A connect that follows a disconnect of the current
  socket leaves as many open connections and listeners as the first connect did.
\<close>

theorem connect_opens_new_socket:
  "sockets (connectSocket c) =
     sockets c @
       [\<lparr>connected = False, closed = False,
         listeners = [(''connect'', connect_listener), (''disconnect'', disconnect_listener),
                      (''connect_error'', connect_error_listener)],
         sent = []\<rparr>]
   \<and> socket (socketState (connectSocket c)) = Some (length (sockets c))
   \<and> length (live (connectSocket c)) = length (live c) + 1
   \<and> registered (connectSocket c) =
       registered c @ [(''connect'', connect_listener), (''disconnect'', disconnect_listener),
                       (''connect_error'', connect_error_listener)]
   \<and> length (live (connectSocket (disconnectSocket (connectSocket c)))) = length (live c) + 1
   \<and> registered (connectSocket (disconnectSocket (connectSocket c))) =
       registered c @ [(''connect'', connect_listener), (''disconnect'', disconnect_listener),
                       (''connect_error'', connect_error_listener)]"
  by (simp add: connectSocket_sockets connectSocket_socket connectSocket_live
      connectSocket_registered disconnect_connectSocket_live
      disconnect_connectSocket_registered)

theorem connect_opens_new_socket_witness:
  "socket (socketState (connectSocket fresh_client)) = Some 0
   \<and> length (live (connectSocket fresh_client)) = 1
   \<and> registered (connectSocket fresh_client) =
       [(''connect'', connect_listener), (''disconnect'', disconnect_listener),
        (''connect_error'', connect_error_listener)]
   \<and> length (live (connectSocket (disconnectSocket (connectSocket fresh_client)))) = 1"
  using connect_opens_new_socket[where c = fresh_client]
  by (simp add: fresh_client_live fresh_client_registered) (simp add: fresh_client_def)

text \<open>
  The claim as the specification states it fails: two calls of \<open>connectSocket\<close> on a fresh
  client leave two open connections and six registered listeners, and the second call
  changes the client.
\<close>

theorem connect_twice_counterexample:
  "length (live (connectSocket (connectSocket fresh_client))) = 2
   \<and> length (registered (connectSocket (connectSocket fresh_client))) = 6
   \<and> connectSocket (connectSocket fresh_client) \<noteq> connectSocket fresh_client"
proof -
  have l: "length (live (connectSocket (connectSocket fresh_client))) = 2"
    by (simp add: connectSocket_live fresh_client_live)
  have r: "length (registered (connectSocket (connectSocket fresh_client))) = 6"
    by (simp add: connectSocket_registered fresh_client_registered)
  have "length (live (connectSocket fresh_client)) = 1"
    by (simp add: connectSocket_live fresh_client_live)
  with l have "connectSocket (connectSocket fresh_client) \<noteq> connectSocket fresh_client"
    by auto
  with l r show ?thesis by simp
qed

end
